theory Spec2Isabelle
  imports Main
begin

section \<open>The generated model declaration\<close>

text \<open>
  The declaration file of the models exports the enum \<open>PostStatus\<close> with the two
  members \<open>ACTIVE = "ACTIVE"\<close> and \<open>INACTIVE = "INACTIVE"\<close>, and the class \<open>Post\<close>
  with the read-only fields \<open>id\<close>, \<open>title\<close>, \<open>rating\<close> and \<open>status\<close>, a constructor
  and the static \<open>copyOf\<close>.
\<close>

datatype PostStatus = ACTIVE | INACTIVE

text \<open>The string each enum member stands for at run time: \<open>PostStatus.ACTIVE\<close> is \<open>"ACTIVE"\<close>.\<close>

fun PostStatus_value :: "PostStatus \<Rightarrow> string" where
  "PostStatus_value ACTIVE = ''ACTIVE''"
| "PostStatus_value INACTIVE = ''INACTIVE''"


text \<open>
  The component is JavaScript, and the declared types are not checked when it runs: the
  \<open>rating\<close> it hands to the constructor is whatever the form holds, the string \<open>''\<close> of
  the initial and of the reset form or the number that \<open>parseInt\<close> returned, which is an
  integer or \<open>NaN\<close>. The values are passed through and never computed with, so a number
  is an integer or \<open>NaN\<close> here. The fields of the model hold run-time values: a rating
  is a string or a number, a status is a string.
\<close>

datatype number = Num int | NaN

datatype jsvalue = Str string | Number number

text \<open>The field \<open>id\<close> is written \<open>id'\<close>: \<open>id\<close> is the identity function of HOL.\<close>

record Post =
  id' :: string
  title :: string
  rating :: jsvalue
  status :: string

text \<open>
  The argument of the constructor, \<open>ModelInit<Post>\<close>: the required fields, and the
  identifier, which may be left out.
\<close>

record ModelInit =
  id' :: "string option"
  title :: string
  rating :: jsvalue
  status :: string

text \<open>
  Modelled from the spec: the body of the constructor \<open>new Post(init)\<close>, of which the
  sources hold the declaration only. The spec: constructing a \<open>Post\<close> takes a field set
  with the required fields, the instance's fields equal the inputs, and the persistence
  layer assigns the identifier if it is omitted. \<open>uuid\<close> is the identifier the layer
  would assign.
\<close>

definition Post_new :: "string \<Rightarrow> ModelInit \<Rightarrow> Post" where
  "Post_new uuid init =
     \<lparr>Post.id' = (case ModelInit.id' init of None \<Rightarrow> uuid | Some i \<Rightarrow> i),
      Post.title = ModelInit.title init,
      Post.rating = ModelInit.rating init,
      Post.status = ModelInit.status init\<rparr>"

text \<open>
  Modelled from the spec: the check the constructor makes of its field set before it
  builds the instance, of which the sources hold nothing. The spec: the rating is a
  numeric field, and no validation beyond the shape of the types is made. A rating that
  is a string is refused with an error; a number is accepted, \<open>NaN\<close> too, which is a
  number of the language. A title is a string in every field set of this model, and the
  status is not looked at. The wording of the error is not in the sources: the message
  names the field and the two types, and ends with the value refused.
\<close>

definition type_shape_error :: "ModelInit \<Rightarrow> string option" where
  "type_shape_error init =
     (case ModelInit.rating init of
        Number n \<Rightarrow> None
      | Str v \<Rightarrow> Some (''Field rating should be of type number, string received. '' @ v))"

text \<open>
  A mutation function receives a mutable draft (\<open>MutableModel<Post>\<close>) and assigns to
  its fields, as \<open>updated => { updated.status = PostStatus.ACTIVE }\<close> does. The draft's
  writable fields are \<open>title\<close>, \<open>rating\<close> and \<open>status\<close>. A mutator is the sequence of
  assignments it performs, which may depend on the draft it is given.
\<close>

datatype field = Title | Rating | Status

datatype assignment =
  Assign_title string
| Assign_rating jsvalue
| Assign_status string

fun assigned_field :: "assignment \<Rightarrow> field" where
  "assigned_field (Assign_title v) = Title"
| "assigned_field (Assign_rating v) = Rating"
| "assigned_field (Assign_status v) = Status"

fun assign :: "assignment \<Rightarrow> Post \<Rightarrow> Post" where
  "assign (Assign_title v) draft = draft\<lparr>Post.title := v\<rparr>"
| "assign (Assign_rating v) draft = draft\<lparr>Post.rating := v\<rparr>"
| "assign (Assign_status v) draft = draft\<lparr>Post.status := v\<rparr>"

type_synonym mutator = "Post \<Rightarrow> assignment list"

text \<open>The fields a mutator assigns when it is run on the draft of \<open>source\<close>.\<close>

definition touched :: "mutator \<Rightarrow> Post \<Rightarrow> field set" where
  "touched mutator source = assigned_field ` set (mutator source)"

text \<open>Whether a field of two instances holds different values.\<close>

fun differs :: "field \<Rightarrow> Post \<Rightarrow> Post \<Rightarrow> bool" where
  "differs Title p q = (Post.title p \<noteq> Post.title q)"
| "differs Rating p q = (Post.rating p \<noteq> Post.rating q)"
| "differs Status p q = (Post.status p \<noteq> Post.status q)"

text \<open>
  Modelled from the spec: the body of \<open>Post.copyOf(source, mutator)\<close>, of which the
  sources hold the declaration only. The spec: the copy operation accepts an existing
  instance and a mutation function operating on a mutable draft; it returns a new
  immutable instance with updated fields and the same identifier.
\<close>

definition copyOf :: "Post \<Rightarrow> mutator \<Rightarrow> Post" where
  "copyOf source mutator =
     (fold assign (mutator source) source)\<lparr>Post.id' := Post.id' source\<rparr>"

text \<open>The mutator of the documentation's update example: \<open>updated.status = PostStatus.ACTIVE\<close>.\<close>

definition activate :: mutator where
  "activate draft = [Assign_status (PostStatus_value ACTIVE)]"

text \<open>Whether an assignment gives a field the value it holds in \<open>p\<close>.\<close>

fun keeps :: "Post \<Rightarrow> assignment \<Rightarrow> bool" where
  "keeps p (Assign_title v) = (v = Post.title p)"
| "keeps p (Assign_rating v) = (v = Post.rating p)"
| "keeps p (Assign_status v) = (v = Post.status p)"

section \<open>The persistence layer, seen from the component\<close>

text \<open>
  \<open>DataStore\<close> is an external collaborator. The component reaches it through calls that
  return promises: \<open>query(Post)\<close>, \<open>query(Post, id)\<close>, \<open>save(instance)\<close> and
  \<open>delete(instance)\<close>. A promise settles: it is fulfilled with a value or rejected with
  a reason.
\<close>

datatype call =
  Query_all
| Query_by_id string
| Save Post
| Delete Post

datatype response = Models "Post list" | Model Post | Undefined

datatype 'a promise = Fulfilled 'a | Rejected string

datatype logarg = Text string | Logged response

text \<open>
  What an observer of the component sees: a call issued to the layer, the call's promise
  settling, a line written by \<open>console.log\<close>.
\<close>

datatype event =
  Issued call
| Settled call "response promise"
| Console_log "logarg list"

text \<open>
  The layer is any function that settles a call, given all that happened before it.
\<close>

type_synonym DataStore = "event list \<Rightarrow> call \<Rightarrow> response promise"

text \<open>A layer that accepts everything and holds no record, and one that is unreachable.\<close>

fun accepting :: DataStore where
  "accepting hist Query_all = Fulfilled (Models [])"
| "accepting hist (Query_by_id i) = Fulfilled Undefined"
| "accepting hist (Save p) = Fulfilled (Model p)"
| "accepting hist (Delete p) = Fulfilled Undefined"

definition offline :: DataStore where
  "offline hist c = Rejected ''Network Error''"

text \<open>The instances a value of the layer holds.\<close>

fun models_of :: "response \<Rightarrow> Post list" where
  "models_of (Models ps) = ps"
| "models_of (Model p) = [p]"
| "models_of Undefined = []"

section \<open>The component\<close>

text \<open>
  The local state of \<open>App\<close> is the form, \<open>useState({ title: '', rating: '' })\<close>. The
  state of the model also holds the \<open>Post\<close> instances alive, addressed by their position,
  and the events so far.
\<close>

record Form =
  title :: string
  rating :: jsvalue

type_synonym ref = nat

record App =
  form :: Form
  instances :: "Post list"
  trace :: "event list"

definition App_init :: App where
  "App_init = \<lparr>form = \<lparr>Form.title = '''', Form.rating = Str ''''\<rparr>, instances = [], trace = []\<rparr>"

definition updateForm :: "Form \<Rightarrow> App \<Rightarrow> App" where
  "updateForm f s = s\<lparr>form := f\<rparr>"

definition console_log :: "logarg list \<Rightarrow> App \<Rightarrow> App" where
  "console_log args s = s\<lparr>trace := trace s @ [Console_log args]\<rparr>"

text \<open>
  \<open>await DataStore.f(...)\<close>: the call is issued, and the function goes on when the
  promise has settled. The instances of a fulfilled promise are objects the component
  holds from then on: they join the instances alive.
\<close>

definition DataStore_await :: "DataStore \<Rightarrow> call \<Rightarrow> App \<Rightarrow> response promise \<times> App" where
  "DataStore_await ds c s =
     (let r = ds (trace s) c
      in (r, s\<lparr>instances :=
                  instances s @ (case r of Fulfilled v \<Rightarrow> models_of v | Rejected e \<Rightarrow> []),
               trace := trace s @ [Issued c, Settled c r]\<rparr>))"

text \<open>
  Modelled from the spec: \<open>new Post(init)\<close> as the component calls it, on the instances
  of the state; the body of the constructor is not in the sources. A field set that the
  check of the type shapes refuses makes the constructor throw, and no instance is
  created; otherwise the instance is a new object, at a reference not in use.
\<close>

definition new_Post :: "string \<Rightarrow> ModelInit \<Rightarrow> App \<Rightarrow> string + ref \<times> App" where
  "new_Post uuid init s =
     (case type_shape_error init of
        Some err \<Rightarrow> Inl err
      | None \<Rightarrow>
          Inr (length (instances s), s\<lparr>instances := instances s @ [Post_new uuid init]\<rparr>))"

text \<open>
  Modelled from the spec: \<open>Post.copyOf(source, mutator)\<close> on an instance of the state;
  the body of \<open>copyOf\<close> is not in the sources. The spec calls the result a new instance
  with the same identifier. The class works on a draft that is copied at the first
  assignment that changes a value: when every assignment of the mutator gives a field
  the value the source holds, and so when the mutator assigns nothing, no copy is made
  and the result is the source itself. The model follows the class there. A reference
  that names no instance has no copy.
\<close>

definition Post_copyOf :: "ref \<Rightarrow> mutator \<Rightarrow> App \<Rightarrow> (ref \<times> App) option" where
  "Post_copyOf source mutator s =
     (if source < length (instances s)
      then (if list_all (keeps (instances s ! source)) (mutator (instances s ! source))
            then Some (source, s)
            else Some (length (instances s),
                       s\<lparr>instances := instances s @ [copyOf (instances s ! source) mutator]\<rparr>))
      else None)"

text \<open>
  \<open>async function query()\<close>: a rejected \<open>await\<close> ends the function, whose promise is
  rejected with the same reason. The update of \<open>original\<close> that follows the second query
  is commented out in the source.
\<close>

definition query :: "DataStore \<Rightarrow> App \<Rightarrow> unit promise \<times> App" where
  "query ds s =
     (case DataStore_await ds Query_all s of
        (Rejected e, s1) \<Rightarrow> (Rejected e, s1)
      | (Fulfilled posts, s1) \<Rightarrow>
          (let s2 = console_log [Text ''posts: '', Logged posts] s1
           in case DataStore_await ds (Query_by_id ''4d5a08f3-d0ac-42bd-a19e-170991a4d79b'') s2 of
                (Rejected e, s3) \<Rightarrow> (Rejected e, s3)
              | (Fulfilled original, s3) \<Rightarrow> (Fulfilled (), s3)))"

text \<open>
  \<open>const postData = {...form, status: PostStatus.INACTIVE}\<close>: the form's fields and
  the status, with no \<open>id\<close>.
\<close>

definition postData :: "Form \<Rightarrow> ModelInit" where
  "postData f =
     \<lparr>ModelInit.id' = None,
      ModelInit.title = Form.title f,
      ModelInit.rating = Form.rating f,
      ModelInit.status = PostStatus_value INACTIVE\<rparr>"

text \<open>
  \<open>async function create()\<close>: an error thrown by \<open>new Post(postData)\<close> ends the
  function before \<open>DataStore.save\<close> is called, and the function's promise is rejected
  with the error. Otherwise the new instance is saved, and when the save has been
  fulfilled a line is logged and the form is reset.
\<close>

definition create :: "string \<Rightarrow> DataStore \<Rightarrow> App \<Rightarrow> unit promise \<times> App" where
  "create uuid ds s =
     (case new_Post uuid (postData (form s)) s of
        Inl err \<Rightarrow> (Rejected err, s)
      | Inr (p, s1) \<Rightarrow>
          (case DataStore_await ds (Save (instances s1 ! p)) s1 of
             (Rejected e, s2) \<Rightarrow> (Rejected e, s2)
           | (Fulfilled saved, s2) \<Rightarrow>
               (let s3 = console_log [Text ''successfully created new post''] s2;
                    s4 = updateForm \<lparr>Form.title = '''', Form.rating = Str ''''\<rparr> s3
                in (Fulfilled (), s4))))"

text \<open>
  \<open>useEffect(() => { query() }, [])\<close>: the effect runs once, after the first render,
  and drops the promise of \<open>query\<close>.
\<close>

definition useEffect :: "DataStore \<Rightarrow> App \<Rightarrow> App" where
  "useEffect ds s = snd (query ds s)"

definition mount :: "DataStore \<Rightarrow> App" where
  "mount ds = useEffect ds App_init"

text \<open>
  The two inputs' \<open>onChange\<close>: \<open>updateForm({ ...form, 'title': e.target.value })\<close> and
  \<open>updateForm({ ...form, 'rating': parseInt(e.target.value) })\<close>. \<open>parseInt\<close> is the
  built-in of the language, a parameter here.
\<close>

definition onChange_title :: "string \<Rightarrow> App \<Rightarrow> App" where
  "onChange_title v s = updateForm ((form s)\<lparr>Form.title := v\<rparr>) s"

definition onChange_rating :: "(string \<Rightarrow> number) \<Rightarrow> string \<Rightarrow> App \<Rightarrow> App" where
  "onChange_rating parseInt v s = updateForm ((form s)\<lparr>Form.rating := Number (parseInt v)\<rparr>) s"

text \<open>The events of one invocation, and the calls among events.\<close>

definition emitted :: "App \<Rightarrow> App \<Rightarrow> event list" where
  "emitted s s' = drop (length (trace s)) (trace s')"

fun calls_of :: "event list \<Rightarrow> call list" where
  "calls_of [] = []"
| "calls_of (Issued c # es) = c # calls_of es"
| "calls_of (e # es) = calls_of es"

section \<open>The handlers, step by step\<close>

text \<open>
  The instance \<open>create\<close> builds, and the two asynchronous functions with their
  \<open>await\<close>s unfolded: what each returns and the state it leaves, by the form's rating and
  by the way the layer settles the calls.
\<close>

lemma Post_new_postData:
  "Post_new uuid (postData f) =
     \<lparr>Post.id' = uuid, Post.title = Form.title f, Post.rating = Form.rating f,
      Post.status = ''INACTIVE''\<rparr>"
  by (simp add: Post_new_def postData_def)

lemma create_refused:
  assumes "Form.rating (form s) = Str v"
  shows "create uuid ds s =
           (Rejected (''Field rating should be of type number, string received. '' @ v), s)"
  using assms by (simp add: create_def new_Post_def type_shape_error_def postData_def)

lemma create_result:
  assumes "Form.rating (form s) = Number n"
  shows "fst (create uuid ds s) =
           (case ds (trace s) (Save (Post_new uuid (postData (form s)))) of
              Fulfilled saved \<Rightarrow> Fulfilled ()
            | Rejected e \<Rightarrow> Rejected e)"
  using assms
  by (simp add: create_def new_Post_def type_shape_error_def postData_def DataStore_await_def
      console_log_def updateForm_def Let_def split: promise.splits)

lemma create_trace:
  assumes "Form.rating (form s) = Number n"
  shows "trace (snd (create uuid ds s)) =
           trace s @
           (case ds (trace s) (Save (Post_new uuid (postData (form s)))) of
              Fulfilled saved \<Rightarrow>
                [Issued (Save (Post_new uuid (postData (form s)))),
                 Settled (Save (Post_new uuid (postData (form s)))) (Fulfilled saved),
                 Console_log [Text ''successfully created new post'']]
            | Rejected e \<Rightarrow>
                [Issued (Save (Post_new uuid (postData (form s)))),
                 Settled (Save (Post_new uuid (postData (form s)))) (Rejected e)])"
  using assms
  by (simp add: create_def new_Post_def type_shape_error_def postData_def DataStore_await_def
      console_log_def updateForm_def Let_def split: promise.splits)

lemma create_form:
  assumes "Form.rating (form s) = Number n"
  shows "form (snd (create uuid ds s)) =
           (case ds (trace s) (Save (Post_new uuid (postData (form s)))) of
              Fulfilled saved \<Rightarrow> \<lparr>Form.title = '''', Form.rating = Str ''''\<rparr>
            | Rejected e \<Rightarrow> form s)"
  using assms
  by (simp add: create_def new_Post_def type_shape_error_def postData_def DataStore_await_def
      console_log_def updateForm_def Let_def split: promise.splits)

lemma create_instances:
  "take (length (instances s)) (instances (snd (create uuid ds s))) = instances s"
  by (simp add: create_def new_Post_def DataStore_await_def console_log_def updateForm_def
      Let_def split: promise.splits option.splits)

lemma query_trace:
  "trace (snd (query ds s)) =
     trace s @
     (case ds (trace s) Query_all of
        Rejected e \<Rightarrow> [Issued Query_all, Settled Query_all (Rejected e)]
      | Fulfilled posts \<Rightarrow>
          [Issued Query_all, Settled Query_all (Fulfilled posts),
           Console_log [Text ''posts: '', Logged posts],
           Issued (Query_by_id ''4d5a08f3-d0ac-42bd-a19e-170991a4d79b''),
           Settled (Query_by_id ''4d5a08f3-d0ac-42bd-a19e-170991a4d79b'')
             (ds (trace s @ [Issued Query_all, Settled Query_all (Fulfilled posts),
                             Console_log [Text ''posts: '', Logged posts]])
                 (Query_by_id ''4d5a08f3-d0ac-42bd-a19e-170991a4d79b''))])"
  by (simp add: query_def DataStore_await_def console_log_def Let_def split: promise.splits)

lemma query_instances:
  "take (length (instances s)) (instances (snd (query ds s))) = instances s"
  by (simp add: query_def DataStore_await_def console_log_def Let_def split: promise.splits)

lemma query_received:
  "instances (snd (query ds s)) =
     instances s @
     (case ds (trace s) Query_all of
        Rejected e \<Rightarrow> []
      | Fulfilled posts \<Rightarrow>
          models_of posts @
          (case ds (trace s @ [Issued Query_all, Settled Query_all (Fulfilled posts),
                               Console_log [Text ''posts: '', Logged posts]])
                   (Query_by_id ''4d5a08f3-d0ac-42bd-a19e-170991a4d79b'') of
             Rejected e \<Rightarrow> []
           | Fulfilled original \<Rightarrow> models_of original))"
  by (simp add: query_def DataStore_await_def console_log_def Let_def split: promise.splits)

lemma mount_calls:
  "calls_of (trace (mount ds)) =
     (case ds [] Query_all of
        Fulfilled posts \<Rightarrow> [Query_all, Query_by_id ''4d5a08f3-d0ac-42bd-a19e-170991a4d79b'']
      | Rejected e \<Rightarrow> [Query_all])"
  by (simp add: mount_def useEffect_def query_trace App_init_def split: promise.splits)

text \<open>Running the assignments of a mutator on a draft, field by field.\<close>

lemma assign_frame:
  "Title \<notin> assigned_field ` set as \<Longrightarrow> Post.title (fold assign as d) = Post.title d"
  "Rating \<notin> assigned_field ` set as \<Longrightarrow> Post.rating (fold assign as d) = Post.rating d"
  "Status \<notin> assigned_field ` set as \<Longrightarrow> Post.status (fold assign as d) = Post.status d"
proof (induction as arbitrary: d)
  case Nil
  { case 1 show ?case by simp }
  { case 2 show ?case by simp }
  { case 3 show ?case by simp }
next
  case (Cons a as)
  { case 1 then show ?case using Cons.IH(1) by (cases a) simp_all }
  { case 2 then show ?case using Cons.IH(2) by (cases a) simp_all }
  { case 3 then show ?case using Cons.IH(3) by (cases a) simp_all }
qed

lemma assign_last:
  "Title \<notin> assigned_field ` set post \<Longrightarrow>
     Post.title (fold assign (pre @ Assign_title t # post) d) = t"
  "Rating \<notin> assigned_field ` set post \<Longrightarrow>
     Post.rating (fold assign (pre @ Assign_rating r # post) d) = r"
  "Status \<notin> assigned_field ` set post \<Longrightarrow>
     Post.status (fold assign (pre @ Assign_status st # post) d) = st"
  by (simp_all add: assign_frame)

lemma assign_keeps: "keeps p a \<Longrightarrow> assign a p = p"
  by (cases a) simp_all

lemma fold_assign_keeps: "list_all (keeps p) as \<Longrightarrow> fold assign as p = p"
  by (induction as) (simp_all add: assign_keeps)

lemma copyOf_keeps: "list_all (keeps p) (f p) \<Longrightarrow> copyOf p f = p"
  by (simp add: copyOf_def fold_assign_keeps)


section \<open>Creating a post\<close>

text \<open>
  C1 says that \<open>create\<close> issues a save for every form. The form starts, and is reset,
  with the string \<open>''\<close> for a rating: the constructor refuses it, \<open>create\<close> is rejected with
  the constructor's error and no call is issued, on a layer that would fulfil the save.
\<close>

theorem create_initial_form_issues_no_save:
  "Form.rating (form App_init) = Str '''' \<and>
   calls_of (emitted App_init (snd (create ''post-1'' accepting App_init))) = [] \<and>
   fst (create ''post-1'' accepting App_init) \<noteq> Fulfilled ()"
proof -
  have r: "Form.rating (form App_init) = Str ''''"
    by (simp add: App_init_def)
  show ?thesis
    by (simp add: create_refused [OF r] r emitted_def)
qed

text \<open>
  C1, amended. When the form's rating is a number, \<open>create\<close> issues one call to the layer,
  a save of an instance whose title and rating are the form's and whose status is
  \<open>INACTIVE\<close>. When the save is fulfilled, \<open>create\<close> is fulfilled and the form is reset to
  an empty title and an empty rating. With the title \<open>My First Post\<close> and the rating 10 in
  the form, the instance saved has that title, that rating and the status \<open>INACTIVE\<close>.
\<close>

theorem create_saves_form_then_resets:
  assumes "Form.rating (form s) = Number n"
  shows
  "calls_of (emitted s (snd (create uuid ds s))) = [Save (Post_new uuid (postData (form s)))] \<and>
   Post.title (Post_new uuid (postData (form s))) = Form.title (form s) \<and>
   Post.rating (Post_new uuid (postData (form s))) = Form.rating (form s) \<and>
   Post.status (Post_new uuid (postData (form s))) = PostStatus_value INACTIVE \<and>
   (\<forall>saved. ds (trace s) (Save (Post_new uuid (postData (form s)))) = Fulfilled saved \<longrightarrow>
      fst (create uuid ds s) = Fulfilled () \<and>
      form (snd (create uuid ds s)) = \<lparr>Form.title = '''', Form.rating = Str ''''\<rparr>) \<and>
   calls_of (emitted (s\<lparr>form := \<lparr>Form.title = ''My First Post'', Form.rating = Number (Num 10)\<rparr>\<rparr>)
      (snd (create uuid ds (s\<lparr>form := \<lparr>Form.title = ''My First Post'', Form.rating = Number (Num 10)\<rparr>\<rparr>)))) =
     [Save \<lparr>Post.id' = uuid, Post.title = ''My First Post'', Post.rating = Number (Num 10),
            Post.status = ''INACTIVE''\<rparr>]"
proof -
  let ?s = "s\<lparr>form := \<lparr>Form.title = ''My First Post'', Form.rating = Number (Num 10)\<rparr>\<rparr>"
  have calls: "calls_of (emitted s (snd (create uuid ds s))) =
      [Save (Post_new uuid (postData (form s)))]"
    using assms by (simp add: create_trace emitted_def split: promise.splits)
  have fields: "Post.title (Post_new uuid (postData (form s))) = Form.title (form s) \<and>
      Post.rating (Post_new uuid (postData (form s))) = Form.rating (form s) \<and>
      Post.status (Post_new uuid (postData (form s))) = PostStatus_value INACTIVE"
    by (simp add: Post_new_postData)
  have reset: "fst (create uuid ds s) = Fulfilled () \<and>
      form (snd (create uuid ds s)) = \<lparr>Form.title = '''', Form.rating = Str ''''\<rparr>"
    if "ds (trace s) (Save (Post_new uuid (postData (form s)))) = Fulfilled saved" for saved
    using assms that by (simp add: create_result create_form)
  have r: "Form.rating (form ?s) = Number (Num 10)"
    by simp
  have example: "calls_of (emitted ?s (snd (create uuid ds ?s))) =
      [Save \<lparr>Post.id' = uuid, Post.title = ''My First Post'', Post.rating = Number (Num 10),
             Post.status = ''INACTIVE''\<rparr>]"
    by (simp add: create_trace [OF r] emitted_def Post_new_postData split: promise.splits)
  from calls fields reset example show ?thesis
    by blast
qed

text \<open>The theorem at the form of the example, on a layer that fulfils the save.\<close>

theorem create_saves_form_then_resets_witness:
  "Form.rating (form
     (App_init\<lparr>form := \<lparr>Form.title = ''My First Post'', Form.rating = Number (Num 10)\<rparr>\<rparr>)) =
     Number (Num 10) \<and>
   accepting [] (Save \<lparr>Post.id' = ''post-1'', Post.title = ''My First Post'',
      Post.rating = Number (Num 10), Post.status = ''INACTIVE''\<rparr>) =
     Fulfilled (Model \<lparr>Post.id' = ''post-1'', Post.title = ''My First Post'',
      Post.rating = Number (Num 10), Post.status = ''INACTIVE''\<rparr>) \<and>
   calls_of (emitted
     (App_init\<lparr>form := \<lparr>Form.title = ''My First Post'', Form.rating = Number (Num 10)\<rparr>\<rparr>)
     (snd (create ''post-1'' accepting
       (App_init\<lparr>form := \<lparr>Form.title = ''My First Post'', Form.rating = Number (Num 10)\<rparr>\<rparr>)))) =
     [Save \<lparr>Post.id' = ''post-1'', Post.title = ''My First Post'',
      Post.rating = Number (Num 10), Post.status = ''INACTIVE''\<rparr>] \<and>
   fst (create ''post-1'' accepting
     (App_init\<lparr>form := \<lparr>Form.title = ''My First Post'', Form.rating = Number (Num 10)\<rparr>\<rparr>)) = Fulfilled () \<and>
   form (snd (create ''post-1'' accepting
     (App_init\<lparr>form := \<lparr>Form.title = ''My First Post'', Form.rating = Number (Num 10)\<rparr>\<rparr>))) =
     \<lparr>Form.title = '''', Form.rating = Str ''''\<rparr>"
proof -
  let ?s = "App_init\<lparr>form := \<lparr>Form.title = ''My First Post'', Form.rating = Number (Num 10)\<rparr>\<rparr>"
  have r: "Form.rating (form ?s) = Number (Num 10)"
    by simp
  from create_saves_form_then_resets [OF r, of "''post-1''" accepting] r show ?thesis
    by (simp add: Post_new_postData App_init_def)
qed

text \<open>
  C3. When the save of \<open>create\<close> is rejected, \<open>create\<close> is rejected with the same reason
  and the form is as it was; the save and its rejection are all that happened: no second
  call, no line logged, no reset. The save is issued, and so can be rejected, when the
  form's rating is a number.
\<close>

theorem create_rejected_save_leaves_form:
  "(Settled (Save p) (Rejected e) \<in> set (emitted s (snd (create uuid ds s))) \<longrightarrow>
      fst (create uuid ds s) = Rejected e \<and>
      form (snd (create uuid ds s)) = form s \<and>
      p = Post_new uuid (postData (form s)) \<and>
      emitted s (snd (create uuid ds s)) = [Issued (Save p), Settled (Save p) (Rejected e)]) \<and>
   (Form.rating (form s) = Number n \<and>
    ds (trace s) (Save (Post_new uuid (postData (form s)))) = Rejected e \<longrightarrow>
      Settled (Save (Post_new uuid (postData (form s)))) (Rejected e)
        \<in> set (emitted s (snd (create uuid ds s))))"
proof (cases "Form.rating (form s)")
  case (Str v)
  then show ?thesis
    by (simp add: create_refused emitted_def)
next
  case (Number m)
  show ?thesis
  proof (cases "ds (trace s) (Save (Post_new uuid (postData (form s))))")
    case (Fulfilled saved)
    with Number show ?thesis
      by (simp add: create_trace emitted_def)
  next
    case (Rejected r)
    with Number show ?thesis
      by (auto simp add: create_trace create_result create_form emitted_def)
  qed
qed

text \<open>The theorem on an unreachable layer, with the form of the example.\<close>

theorem create_rejected_save_leaves_form_witness:
  "Form.rating (form
     (App_init\<lparr>form := \<lparr>Form.title = ''My First Post'', Form.rating = Number (Num 10)\<rparr>\<rparr>)) =
     Number (Num 10) \<and>
   offline [] (Save \<lparr>Post.id' = ''post-1'', Post.title = ''My First Post'',
      Post.rating = Number (Num 10), Post.status = ''INACTIVE''\<rparr>) = Rejected ''Network Error'' \<and>
   fst (create ''post-1'' offline
     (App_init\<lparr>form := \<lparr>Form.title = ''My First Post'', Form.rating = Number (Num 10)\<rparr>\<rparr>)) =
     Rejected ''Network Error'' \<and>
   form (snd (create ''post-1'' offline
     (App_init\<lparr>form := \<lparr>Form.title = ''My First Post'', Form.rating = Number (Num 10)\<rparr>\<rparr>))) =
     \<lparr>Form.title = ''My First Post'', Form.rating = Number (Num 10)\<rparr> \<and>
   emitted (App_init\<lparr>form := \<lparr>Form.title = ''My First Post'', Form.rating = Number (Num 10)\<rparr>\<rparr>)
     (snd (create ''post-1'' offline
       (App_init\<lparr>form := \<lparr>Form.title = ''My First Post'', Form.rating = Number (Num 10)\<rparr>\<rparr>))) =
     [Issued (Save \<lparr>Post.id' = ''post-1'', Post.title = ''My First Post'',
        Post.rating = Number (Num 10), Post.status = ''INACTIVE''\<rparr>),
      Settled (Save \<lparr>Post.id' = ''post-1'', Post.title = ''My First Post'',
        Post.rating = Number (Num 10), Post.status = ''INACTIVE''\<rparr>) (Rejected ''Network Error'')]"
proof -
  let ?s = "App_init\<lparr>form := \<lparr>Form.title = ''My First Post'', Form.rating = Number (Num 10)\<rparr>\<rparr>"
  let ?p = "Post_new ''post-1'' (postData (form ?s))"
  have p: "?p = \<lparr>Post.id' = ''post-1'', Post.title = ''My First Post'',
      Post.rating = Number (Num 10), Post.status = ''INACTIVE''\<rparr>"
    by (simp add: Post_new_postData)
  have r: "Form.rating (form ?s) = Number (Num 10)"
    by simp
  have o: "offline (trace ?s) (Save ?p) = Rejected ''Network Error''"
    by (simp add: offline_def)
  note t = create_rejected_save_leaves_form
    [of ?p "''Network Error''" ?s "''post-1''" offline "Num 10"]
  from t r o have "Settled (Save ?p) (Rejected ''Network Error'')
      \<in> set (emitted ?s (snd (create ''post-1'' offline ?s)))"
    by blast
  with t have "fst (create ''post-1'' offline ?s) = Rejected ''Network Error'' \<and>
      form (snd (create ''post-1'' offline ?s)) = form ?s \<and>
      emitted ?s (snd (create ''post-1'' offline ?s)) =
        [Issued (Save ?p), Settled (Save ?p) (Rejected ''Network Error'')]"
    by blast
  with p r show ?thesis
    by (simp add: offline_def)
qed

text \<open>
  C4 says that \<open>create\<close> hands the form's values to the save and never rejects them, also
  with the empty string for a rating. With a title typed and the rating left as it
  starts, the constructor refuses the field set: \<open>create\<close> is rejected and no save is
  issued, on a layer that would fulfil it.
\<close>

theorem create_string_rating_is_refused:
  "Form.rating (form (onChange_title ''My First Post'' App_init)) = Str '''' \<and>
   fst (create ''post-1'' accepting (onChange_title ''My First Post'' App_init)) \<noteq>
     Fulfilled () \<and>
   calls_of (trace (snd (create ''post-1'' accepting (onChange_title ''My First Post'' App_init)))) = []"
proof -
  have r: "Form.rating (form (onChange_title ''My First Post'' App_init)) = Str ''''"
    by (simp add: onChange_title_def updateForm_def App_init_def)
  show ?thesis
    by (simp add: create_refused [OF r] r)
      (simp add: onChange_title_def updateForm_def App_init_def)
qed

text \<open>
  C4, amended. The component checks nothing itself; the one check is the constructor's, of
  the shape of the types. When the form's rating is a number, \<open>create\<close> saves an instance
  with the form's title and rating as they are, and \<open>create\<close> is rejected only when the
  save is, with the save's reason: so it is with an empty title, and with a rating of
  \<open>NaN\<close> that \<open>parseInt\<close> returned. When the form's rating is a string, as the empty string
  of the initial and of the reset form, the constructor refuses it: \<open>create\<close> is rejected,
  no save is issued and the state is as it was.
\<close>

theorem create_passes_form_unchecked:
  "(\<forall>n. Form.rating (form s) = Number n \<longrightarrow>
      calls_of (emitted s (snd (create uuid ds s))) = [Save (Post_new uuid (postData (form s)))] \<and>
      Post.title (Post_new uuid (postData (form s))) = Form.title (form s) \<and>
      Post.rating (Post_new uuid (postData (form s))) = Form.rating (form s) \<and>
      fst (create uuid ds s) =
        (case ds (trace s) (Save (Post_new uuid (postData (form s)))) of
           Fulfilled saved \<Rightarrow> Fulfilled ()
         | Rejected e \<Rightarrow> Rejected e)) \<and>
   (\<forall>v. Form.rating (form s) = Str v \<longrightarrow>
      calls_of (emitted s (snd (create uuid ds s))) = [] \<and>
      snd (create uuid ds s) = s \<and>
      (\<exists>err. fst (create uuid ds s) = Rejected err)) \<and>
   calls_of (trace (snd (create uuid ds (onChange_rating (\<lambda>text. NaN) v' App_init)))) =
     [Save \<lparr>Post.id' = uuid, Post.title = '''', Post.rating = Number NaN,
            Post.status = ''INACTIVE''\<rparr>]"
proof -
  have num: "calls_of (emitted s (snd (create uuid ds s))) =
        [Save (Post_new uuid (postData (form s)))] \<and>
      Post.title (Post_new uuid (postData (form s))) = Form.title (form s) \<and>
      Post.rating (Post_new uuid (postData (form s))) = Form.rating (form s) \<and>
      fst (create uuid ds s) =
        (case ds (trace s) (Save (Post_new uuid (postData (form s)))) of
           Fulfilled saved \<Rightarrow> Fulfilled ()
         | Rejected e \<Rightarrow> Rejected e)"
    if "Form.rating (form s) = Number n" for n
    using that
    by (simp add: create_trace create_result emitted_def Post_new_postData split: promise.splits)
  have str: "calls_of (emitted s (snd (create uuid ds s))) = [] \<and>
      snd (create uuid ds s) = s \<and> (\<exists>err. fst (create uuid ds s) = Rejected err)"
    if "Form.rating (form s) = Str v" for v
    using that by (simp add: create_refused emitted_def)
  have r: "Form.rating (form (onChange_rating (\<lambda>text. NaN) v' App_init)) = Number NaN"
    by (simp add: onChange_rating_def updateForm_def)
  have nan: "calls_of (trace (snd (create uuid ds (onChange_rating (\<lambda>text. NaN) v' App_init)))) =
     [Save \<lparr>Post.id' = uuid, Post.title = '''', Post.rating = Number NaN,
            Post.status = ''INACTIVE''\<rparr>]"
    by (simp add: create_trace [OF r] Post_new_postData split: promise.splits)
      (simp add: onChange_rating_def updateForm_def App_init_def)
  from num str nan show ?thesis
    by blast
qed

text \<open>
  The theorem at a form with an empty title and a rating of \<open>NaN\<close>, on a layer that fulfils
  the save, and at the initial form.
\<close>

theorem create_passes_form_unchecked_witness:
  "Form.rating (form (onChange_rating (\<lambda>text. NaN) ''abc'' App_init)) = Number NaN \<and>
   accepting [] (Save \<lparr>Post.id' = ''post-1'', Post.title = '''', Post.rating = Number NaN,
      Post.status = ''INACTIVE''\<rparr>) =
     Fulfilled (Model \<lparr>Post.id' = ''post-1'', Post.title = '''', Post.rating = Number NaN,
      Post.status = ''INACTIVE''\<rparr>) \<and>
   fst (create ''post-1'' accepting (onChange_rating (\<lambda>text. NaN) ''abc'' App_init)) = Fulfilled () \<and>
   Form.rating (form App_init) = Str '''' \<and>
   snd (create ''post-1'' accepting App_init) = App_init"
proof -
  let ?s = "onChange_rating (\<lambda>text. NaN) ''abc'' App_init"
  have r: "Form.rating (form ?s) = Number NaN"
    by (simp add: onChange_rating_def updateForm_def)
  have f: "form ?s = \<lparr>Form.title = '''', Form.rating = Number NaN\<rparr>"
    by (simp add: onChange_rating_def updateForm_def App_init_def)
  have t: "trace ?s = []"
    by (simp add: onChange_rating_def updateForm_def App_init_def)
  have i: "Form.rating (form App_init) = Str ''''"
    by (simp add: App_init_def)
  from create_passes_form_unchecked [of ?s "''post-1''" accepting] r
  have "fst (create ''post-1'' accepting ?s) =
      (case accepting (trace ?s) (Save (Post_new ''post-1'' (postData (form ?s)))) of
         Fulfilled saved \<Rightarrow> Fulfilled ()
       | Rejected e \<Rightarrow> Rejected e)"
    by blast
  then have a: "fst (create ''post-1'' accepting ?s) = Fulfilled ()"
    by (simp add: f t Post_new_postData)
  from create_passes_form_unchecked [of App_init "''post-1''" accepting] i
  have b: "snd (create ''post-1'' accepting App_init) = App_init"
    by blast
  from r a i b show ?thesis
    by simp
qed

section \<open>The form's change handlers\<close>

text \<open>
  C10. A change of the title input sets the form's title to the typed text and leaves
  the rating as it was; a change of the rating input sets the form's rating to
  \<open>parseInt\<close> of the typed text and leaves the title as it was. Neither touches anything
  else: no call is issued and no instance changes.
\<close>

theorem onChange_updates_one_field:
  "Form.title (form (onChange_title v s)) = v \<and>
   Form.rating (form (onChange_title v s)) = Form.rating (form s) \<and>
   Form.rating (form (onChange_rating parseInt v s)) = Number (parseInt v) \<and>
   Form.title (form (onChange_rating parseInt v s)) = Form.title (form s) \<and>
   trace (onChange_title v s) = trace s \<and> instances (onChange_title v s) = instances s \<and>
   trace (onChange_rating parseInt v s) = trace s \<and>
   instances (onChange_rating parseInt v s) = instances s"
  by (simp add: onChange_title_def onChange_rating_def updateForm_def)

section \<open>Mounting and querying\<close>

text \<open>
  C2 says that mounting issues one query for all posts and one query by the identifier,
  whatever happens. On an unreachable layer the first query is rejected, \<open>query\<close> ends
  there, and the query by the identifier is never issued.
\<close>

theorem mount_offline_issues_no_query_by_id:
  "calls_of (trace (mount offline)) = [Query_all] \<and>
   count_list (calls_of (trace (mount offline)))
     (Query_by_id ''4d5a08f3-d0ac-42bd-a19e-170991a4d79b'') \<noteq> 1"
  by (simp add: mount_calls offline_def)

text \<open>
  C2, amended. Mounting issues one query for all posts, and no save and no delete. When
  that query is fulfilled the query by the identifier
  \<open>4d5a08f3-d0ac-42bd-a19e-170991a4d79b\<close> follows, and the two are all the calls; when
  it is rejected, it is the only call.
\<close>

theorem mount_queries:
  "count_list (calls_of (trace (mount ds))) Query_all = 1 \<and>
   (\<forall>p. Save p \<notin> set (calls_of (trace (mount ds))) \<and>
        Delete p \<notin> set (calls_of (trace (mount ds)))) \<and>
   (\<forall>posts. ds [] Query_all = Fulfilled posts \<longrightarrow>
      calls_of (trace (mount ds)) =
        [Query_all, Query_by_id ''4d5a08f3-d0ac-42bd-a19e-170991a4d79b'']) \<and>
   (\<forall>e. ds [] Query_all = Rejected e \<longrightarrow> calls_of (trace (mount ds)) = [Query_all])"
  by (simp add: mount_calls split: promise.splits)

text \<open>The theorem on a layer that fulfils the query, and on one that rejects it.\<close>

theorem mount_queries_witness:
  "accepting [] Query_all = Fulfilled (Models []) \<and>
   calls_of (trace (mount accepting)) =
     [Query_all, Query_by_id ''4d5a08f3-d0ac-42bd-a19e-170991a4d79b''] \<and>
   offline [] Query_all = Rejected ''Network Error'' \<and>
   calls_of (trace (mount offline)) = [Query_all]"
  using mount_queries [of accepting] mount_queries [of offline]
  by (simp add: offline_def)

text \<open>
  C9. In an invocation of \<open>query\<close>, from any state (on mount or from the button), a query
  by an identifier is issued only for \<open>4d5a08f3-d0ac-42bd-a19e-170991a4d79b\<close>, and all
  that comes before it is the query for all posts, its fulfilment and the line logged
  with its result; no query for all posts comes after it.
\<close>

theorem query_all_settles_before_query_by_id:
  assumes "emitted s (snd (query ds s)) = pre @ Issued (Query_by_id i) # post"
  shows "i = ''4d5a08f3-d0ac-42bd-a19e-170991a4d79b'' \<and>
         (\<exists>posts. ds (trace s) Query_all = Fulfilled posts \<and>
            pre = [Issued Query_all, Settled Query_all (Fulfilled posts),
                   Console_log [Text ''posts: '', Logged posts]]) \<and>
         Issued Query_all \<notin> set post"
proof (cases "ds (trace s) Query_all")
  case (Rejected e)
  with assms have "[Issued Query_all, Settled Query_all (Rejected e)] =
      pre @ Issued (Query_by_id i) # post"
    by (simp add: query_trace emitted_def)
  then show ?thesis
    by (auto simp: Cons_eq_append_conv)
next
  case (Fulfilled posts)
  let ?c = "Query_by_id ''4d5a08f3-d0ac-42bd-a19e-170991a4d79b''"
  obtain r where "[Issued Query_all, Settled Query_all (Fulfilled posts),
      Console_log [Text ''posts: '', Logged posts], Issued ?c, Settled ?c r] =
      pre @ Issued (Query_by_id i) # post"
    using assms Fulfilled by (simp add: query_trace emitted_def)
  then show ?thesis using Fulfilled
    by (auto simp: Cons_eq_append_conv)
qed

text \<open>The theorem at the events of \<open>query\<close> on a layer that fulfils both queries.\<close>

theorem query_all_settles_before_query_by_id_witness:
  "emitted App_init (snd (query accepting App_init)) =
     [Issued Query_all, Settled Query_all (Fulfilled (Models [])),
      Console_log [Text ''posts: '', Logged (Models [])]] @
     Issued (Query_by_id ''4d5a08f3-d0ac-42bd-a19e-170991a4d79b'') #
     [Settled (Query_by_id ''4d5a08f3-d0ac-42bd-a19e-170991a4d79b'') (Fulfilled Undefined)] \<and>
   accepting (trace App_init) Query_all = Fulfilled (Models []) \<and>
   Issued Query_all \<notin> set
     [Settled (Query_by_id ''4d5a08f3-d0ac-42bd-a19e-170991a4d79b'') (Fulfilled Undefined)]"
proof -
  have e: "emitted App_init (snd (query accepting App_init)) =
     [Issued Query_all, Settled Query_all (Fulfilled (Models [])),
      Console_log [Text ''posts: '', Logged (Models [])]] @
     Issued (Query_by_id ''4d5a08f3-d0ac-42bd-a19e-170991a4d79b'') #
     [Settled (Query_by_id ''4d5a08f3-d0ac-42bd-a19e-170991a4d79b'') (Fulfilled Undefined)]"
    by (simp add: query_trace emitted_def App_init_def)
  from query_all_settles_before_query_by_id [OF e] e show ?thesis
    by simp
qed

section \<open>Construction and copy\<close>

text \<open>
  C5 says that the fields assigned by the mutator are exactly those that differ from the
  source. A mutator may assign to a field the value it holds: the documentation's
  \<open>updated.status = PostStatus.ACTIVE\<close> on a post that is active assigns the status, and
  the status of the copy does not differ.
\<close>

theorem copyOf_assigned_field_unchanged:
  "Status \<in> touched activate
      \<lparr>Post.id' = ''4d5a08f3-d0ac-42bd-a19e-170991a4d79b'', Post.title = ''My First Post'',
       Post.rating = Number (Num 10), Post.status = PostStatus_value ACTIVE\<rparr> \<and>
   \<not> differs Status
      \<lparr>Post.id' = ''4d5a08f3-d0ac-42bd-a19e-170991a4d79b'', Post.title = ''My First Post'',
       Post.rating = Number (Num 10), Post.status = PostStatus_value ACTIVE\<rparr>
      (copyOf
        \<lparr>Post.id' = ''4d5a08f3-d0ac-42bd-a19e-170991a4d79b'', Post.title = ''My First Post'',
         Post.rating = Number (Num 10), Post.status = PostStatus_value ACTIVE\<rparr> activate)"
  by (simp add: touched_def activate_def copyOf_def)

text \<open>
  C5, amended. The copy has the identifier of the source; a field the mutator does not
  assign is as in the source; and a field the mutator assigns holds the value assigned
  to it last, which may be the value of the source.
\<close>

theorem copyOf_frame:
  "Post.id' (copyOf p f) = Post.id' p \<and>
   (\<forall>fld. fld \<notin> touched f p \<longrightarrow> \<not> differs fld p (copyOf p f)) \<and>
   (\<forall>pre t post. f p = pre @ Assign_title t # post \<and> Title \<notin> assigned_field ` set post \<longrightarrow>
      Post.title (copyOf p f) = t) \<and>
   (\<forall>pre r post. f p = pre @ Assign_rating r # post \<and> Rating \<notin> assigned_field ` set post \<longrightarrow>
      Post.rating (copyOf p f) = r) \<and>
   (\<forall>pre st post. f p = pre @ Assign_status st # post \<and> Status \<notin> assigned_field ` set post \<longrightarrow>
      Post.status (copyOf p f) = st)"
proof -
  have ident: "Post.id' (copyOf p f) = Post.id' p"
    by (simp add: copyOf_def)
  have frame: "\<not> differs fld p (copyOf p f)" if "fld \<notin> touched f p" for fld
    using that by (cases fld) (simp_all add: touched_def copyOf_def assign_frame)
  have t: "Post.title (copyOf p f) = t"
    if "f p = pre @ Assign_title t # post" "Title \<notin> assigned_field ` set post" for pre t post
    using that assign_last(1) [of post pre t p] by (simp add: copyOf_def)
  have r: "Post.rating (copyOf p f) = r"
    if "f p = pre @ Assign_rating r # post" "Rating \<notin> assigned_field ` set post" for pre r post
    using that assign_last(2) [of post pre r p] by (simp add: copyOf_def)
  have s: "Post.status (copyOf p f) = st"
    if "f p = pre @ Assign_status st # post" "Status \<notin> assigned_field ` set post" for pre st post
    using that assign_last(3) [of post pre st p] by (simp add: copyOf_def)
  from ident frame t r s show ?thesis
    by blast
qed

text \<open>The theorem at the documentation's mutator, on a post that is inactive.\<close>

theorem copyOf_frame_witness:
  "Post.id' (copyOf
      \<lparr>Post.id' = ''4d5a08f3-d0ac-42bd-a19e-170991a4d79b'', Post.title = ''My First Post'',
       Post.rating = Number (Num 10), Post.status = PostStatus_value INACTIVE\<rparr> activate) =
     ''4d5a08f3-d0ac-42bd-a19e-170991a4d79b'' \<and>
   Title \<notin> touched activate
      \<lparr>Post.id' = ''4d5a08f3-d0ac-42bd-a19e-170991a4d79b'', Post.title = ''My First Post'',
       Post.rating = Number (Num 10), Post.status = PostStatus_value INACTIVE\<rparr> \<and>
   \<not> differs Title
      \<lparr>Post.id' = ''4d5a08f3-d0ac-42bd-a19e-170991a4d79b'', Post.title = ''My First Post'',
       Post.rating = Number (Num 10), Post.status = PostStatus_value INACTIVE\<rparr>
      (copyOf
        \<lparr>Post.id' = ''4d5a08f3-d0ac-42bd-a19e-170991a4d79b'', Post.title = ''My First Post'',
         Post.rating = Number (Num 10), Post.status = PostStatus_value INACTIVE\<rparr> activate) \<and>
   activate
      \<lparr>Post.id' = ''4d5a08f3-d0ac-42bd-a19e-170991a4d79b'', Post.title = ''My First Post'',
       Post.rating = Number (Num 10), Post.status = PostStatus_value INACTIVE\<rparr> =
     [] @ Assign_status (PostStatus_value ACTIVE) # [] \<and>
   Status \<notin> assigned_field ` set [] \<and>
   Post.status (copyOf
      \<lparr>Post.id' = ''4d5a08f3-d0ac-42bd-a19e-170991a4d79b'', Post.title = ''My First Post'',
       Post.rating = Number (Num 10), Post.status = PostStatus_value INACTIVE\<rparr> activate) =
     PostStatus_value ACTIVE"
proof -
  let ?p = "\<lparr>Post.id' = ''4d5a08f3-d0ac-42bd-a19e-170991a4d79b'', Post.title = ''My First Post'',
       Post.rating = Number (Num 10), Post.status = PostStatus_value INACTIVE\<rparr>"
  have t: "Title \<notin> touched activate ?p"
    by (simp add: touched_def activate_def)
  have a: "activate ?p = [] @ Assign_status (PostStatus_value ACTIVE) # []"
    by (simp add: activate_def)
  have s: "Status \<notin> assigned_field ` set []"
    by simp
  from copyOf_frame [of ?p activate] t a s
  have "Post.id' (copyOf ?p activate) = ''4d5a08f3-d0ac-42bd-a19e-170991a4d79b''"
    and "\<not> differs Title ?p (copyOf ?p activate)"
    and "Post.status (copyOf ?p activate) = PostStatus_value ACTIVE"
    by (simp, blast, blast)
  with t a s show ?thesis by blast
qed


text \<open>
  C7 says that \<open>copyOf\<close> yields a new instance. The documentation's
  \<open>updated.status = PostStatus.ACTIVE\<close> on a post that is active changes no value: no copy
  is made, and the result is the source itself, at the source's own reference, in a state
  that holds no more instances than before.
\<close>

theorem Post_copyOf_returns_the_source:
  "Post_copyOf 0 activate
     \<lparr>form = \<lparr>Form.title = '''', Form.rating = Str ''''\<rparr>,
      instances =
        [\<lparr>Post.id' = ''4d5a08f3-d0ac-42bd-a19e-170991a4d79b'', Post.title = ''My First Post'',
          Post.rating = Number (Num 10), Post.status = ''ACTIVE''\<rparr>],
      trace = []\<rparr> =
   Some (0,
     \<lparr>form = \<lparr>Form.title = '''', Form.rating = Str ''''\<rparr>,
      instances =
        [\<lparr>Post.id' = ''4d5a08f3-d0ac-42bd-a19e-170991a4d79b'', Post.title = ''My First Post'',
          Post.rating = Number (Num 10), Post.status = ''ACTIVE''\<rparr>],
      trace = []\<rparr>)"
  by (simp add: Post_copyOf_def activate_def)

text \<open>
  C7, amended. No operation changes an instance that exists: the constructor adds an
  instance, \<open>create\<close> adds the one it constructs and receives what the layer returns,
  \<open>query\<close> and the effect receive what the layer returns, as it is returned, and all
  of them leave the instances they find as they are; the change handlers leave the
  instances as they are. \<open>copyOf\<close> of an instance leaves the source as it
  is and yields an instance with the identifier of the source and the values of the copy:
  the source itself when every assignment of the mutator gives a field the value the
  source holds, and otherwise a new instance, at a reference of its own.
\<close>

theorem instances_never_mutated:
  "(\<forall>r s'. new_Post uuid init s = Inr (r, s') \<longrightarrow>
      take (length (instances s)) (instances s') = instances s \<and> r = length (instances s) \<and>
      instances s' ! r = Post_new uuid init) \<and>
   take (length (instances s)) (instances (snd (create uuid ds s))) = instances s \<and>
   take (length (instances s)) (instances (snd (query ds s))) = instances s \<and>
   instances (snd (query ds s)) =
     instances s @
     (case ds (trace s) Query_all of
        Rejected e \<Rightarrow> []
      | Fulfilled posts \<Rightarrow>
          models_of posts @
          (case ds (trace s @ [Issued Query_all, Settled Query_all (Fulfilled posts),
                               Console_log [Text ''posts: '', Logged posts]])
                   (Query_by_id ''4d5a08f3-d0ac-42bd-a19e-170991a4d79b'') of
             Rejected e \<Rightarrow> []
           | Fulfilled original \<Rightarrow> models_of original)) \<and>
   take (length (instances s)) (instances (useEffect ds s)) = instances s \<and>
   instances (onChange_title v s) = instances s \<and>
   instances (onChange_rating parseInt v s) = instances s \<and>
   (source < length (instances s) \<longrightarrow>
      (\<exists>r s'. Post_copyOf source f s = Some (r, s') \<and>
         take (length (instances s)) (instances s') = instances s \<and>
         instances s' ! r = copyOf (instances s ! source) f \<and>
         Post.id' (instances s' ! r) = Post.id' (instances s ! source) \<and>
         (list_all (keeps (instances s ! source)) (f (instances s ! source)) \<longrightarrow>
            r = source \<and> s' = s) \<and>
         (\<not> list_all (keeps (instances s ! source)) (f (instances s ! source)) \<longrightarrow>
            r = length (instances s) \<and> length (instances s') = Suc (length (instances s)))))"
proof -
  have n: "take (length (instances s)) (instances s') = instances s \<and>
      r = length (instances s) \<and> instances s' ! r = Post_new uuid init"
    if "new_Post uuid init s = Inr (r, s')" for r s'
    using that by (auto simp add: new_Post_def split: option.splits)
  have h: "instances (onChange_title v s) = instances s \<and>
      instances (onChange_rating parseInt v s) = instances s"
    by (simp add: onChange_title_def onChange_rating_def updateForm_def)
  have c: "\<exists>r s'. Post_copyOf source f s = Some (r, s') \<and>
         take (length (instances s)) (instances s') = instances s \<and>
         instances s' ! r = copyOf (instances s ! source) f \<and>
         Post.id' (instances s' ! r) = Post.id' (instances s ! source) \<and>
         (list_all (keeps (instances s ! source)) (f (instances s ! source)) \<longrightarrow>
            r = source \<and> s' = s) \<and>
         (\<not> list_all (keeps (instances s ! source)) (f (instances s ! source)) \<longrightarrow>
            r = length (instances s) \<and> length (instances s') = Suc (length (instances s)))"
    if valid: "source < length (instances s)"
  proof (cases "list_all (keeps (instances s ! source)) (f (instances s ! source))")
    case True
    then have "copyOf (instances s ! source) f = instances s ! source"
      by (rule copyOf_keeps)
    with True valid show ?thesis
      by (simp add: Post_copyOf_def)
  next
    case False
    with valid show ?thesis
      by (simp add: Post_copyOf_def copyOf_def)
  qed
  have cr: "take (length (instances s)) (instances (snd (create uuid ds s))) = instances s"
    by (rule create_instances)
  have qu: "take (length (instances s)) (instances (snd (query ds s))) = instances s"
    by (rule query_instances)
  have ue: "take (length (instances s)) (instances (useEffect ds s)) = instances s"
    by (simp add: useEffect_def query_instances)
  note qr = query_received [of ds s]
  from n cr qu qr ue h c show ?thesis
    by blast
qed

text \<open>
  The theorem at a state with one inactive post, copied with the documentation's
  mutator: the copy is a second instance, and the first is as it was.
\<close>

theorem instances_never_mutated_witness:
  "(0::nat) < length (instances
     \<lparr>form = \<lparr>Form.title = '''', Form.rating = Str ''''\<rparr>,
      instances =
        [\<lparr>Post.id' = ''4d5a08f3-d0ac-42bd-a19e-170991a4d79b'', Post.title = ''My First Post'',
          Post.rating = Number (Num 10), Post.status = ''INACTIVE''\<rparr>],
      trace = []\<rparr>) \<and>
   (\<exists>s'. Post_copyOf 0 activate
       \<lparr>form = \<lparr>Form.title = '''', Form.rating = Str ''''\<rparr>,
        instances =
          [\<lparr>Post.id' = ''4d5a08f3-d0ac-42bd-a19e-170991a4d79b'', Post.title = ''My First Post'',
            Post.rating = Number (Num 10), Post.status = ''INACTIVE''\<rparr>],
        trace = []\<rparr> = Some (1, s') \<and>
      instances s' ! 0 =
        \<lparr>Post.id' = ''4d5a08f3-d0ac-42bd-a19e-170991a4d79b'', Post.title = ''My First Post'',
         Post.rating = Number (Num 10), Post.status = ''INACTIVE''\<rparr> \<and>
      Post.id' (instances s' ! 1) = ''4d5a08f3-d0ac-42bd-a19e-170991a4d79b'')"
proof -
  let ?p = "\<lparr>Post.id' = ''4d5a08f3-d0ac-42bd-a19e-170991a4d79b'', Post.title = ''My First Post'',
          Post.rating = Number (Num 10), Post.status = ''INACTIVE''\<rparr>"
  let ?s = "\<lparr>form = \<lparr>Form.title = '''', Form.rating = Str ''''\<rparr>, instances = [?p], trace = []\<rparr>"
  have l: "0 < length (instances ?s)"
    by simp
  have k: "\<not> list_all (keeps (instances ?s ! 0)) (activate (instances ?s ! 0))"
    by (simp add: activate_def)
  from instances_never_mutated [of _ _ ?s _ _ _ 0 activate] l
  obtain r s' where "Post_copyOf 0 activate ?s = Some (r, s')"
    and "take (length (instances ?s)) (instances s') = instances ?s"
    and "Post.id' (instances s' ! r) = Post.id' (instances ?s ! 0)"
    and "\<not> list_all (keeps (instances ?s ! 0)) (activate (instances ?s ! 0)) \<longrightarrow>
           r = length (instances ?s) \<and> length (instances s') = Suc (length (instances ?s))"
    by blast
  with k have 1: "Post_copyOf 0 activate ?s = Some (1, s')"
    and 2: "take 1 (instances s') = [?p]"
    and 3: "Post.id' (instances s' ! 1) = ''4d5a08f3-d0ac-42bd-a19e-170991a4d79b''"
    and 4: "length (instances s') = 2"
    by simp_all
  from 2 4 have "instances s' ! 0 = ?p"
    by (cases "instances s'") simp_all
  with 1 3 l show ?thesis
    by blast
qed



end
